theory Spec2Isabelle
  imports Complex_Main "HOL-Library.Multiset"
begin

section \<open>Text normaliser: \<open>preprocessar_texto\<close>\<close>

text \<open>
  A Python \<open>str\<close> is modelled as a \<open>string\<close> whose characters are the code points
  0..255 (Latin-1, the range the Portuguese texts of the module live in). The four
  character classes below are the ones the source relies on, restricted to that range:
  \<open>str.lower\<close>, and the classes \<open>\\w\<close>, \<open>\\d\<close> and \<open>\\s\<close> of the \<open>re\<close> module on \<open>str\<close>
  patterns (\<open>\\w\<close> is "alphanumeric or underscore", \<open>\\d\<close> is "decimal digit", \<open>\\s\<close> is
  "whitespace").
\<close>

definition py_lower :: "char \<Rightarrow> char" where
  "py_lower c =
     (let n = (of_char c :: nat)
      in if (65 \<le> n \<and> n \<le> 90) \<or> (192 \<le> n \<and> n \<le> 222 \<and> n \<noteq> 215)
         then char_of (n + 32) else c)"

definition re_d :: "char \<Rightarrow> bool" where
  "re_d c = (let n = (of_char c :: nat) in 48 \<le> n \<and> n \<le> 57)"

definition re_s :: "char \<Rightarrow> bool" where
  "re_s c =
     (let n = (of_char c :: nat)
      in (9 \<le> n \<and> n \<le> 13) \<or> (28 \<le> n \<and> n \<le> 32) \<or> n = 133 \<or> n = 160)"

definition re_w :: "char \<Rightarrow> bool" where
  "re_w c =
     (let n = (of_char c :: nat)
      in (48 \<le> n \<and> n \<le> 57) \<or> (65 \<le> n \<and> n \<le> 90) \<or> n = 95 \<or> (97 \<le> n \<and> n \<le> 122)
         \<or> n = 170 \<or> n = 178 \<or> n = 179 \<or> n = 181 \<or> n = 185 \<or> n = 186
         \<or> (188 \<le> n \<and> n \<le> 190) \<or> (192 \<le> n \<and> n \<le> 214) \<or> (216 \<le> n \<and> n \<le> 246)
         \<or> 248 \<le> n)"

text \<open>\<open>re.sub(r'[^\\w\\s]', ' ', texto)\<close>: every character outside both classes becomes a space.\<close>

definition sub_especiais :: "string \<Rightarrow> string" where
  "sub_especiais s = map (\<lambda>c. if \<not> re_w c \<and> \<not> re_s c then CHR '' '' else c) s"

text \<open>
  \<open>re.sub(r'\\d+', ' ', texto)\<close> and \<open>re.sub(r'\\s+', ' ', texto)\<close>: every maximal run of
  characters of the class is replaced by one space.
\<close>

function sub_sequencias :: "(char \<Rightarrow> bool) \<Rightarrow> string \<Rightarrow> string" where
  "sub_sequencias P [] = []"
| "sub_sequencias P (c # cs) =
     (if P c then CHR '' '' # sub_sequencias P (dropWhile P cs)
      else c # sub_sequencias P cs)"
  by pat_completeness auto
termination
  by (relation "measure (\<lambda>(P, s). length s)")
     (auto simp: less_Suc_eq_le length_dropWhile_le)

text \<open>\<open>str.strip()\<close>: leading and trailing whitespace removed.\<close>

definition py_strip :: "string \<Rightarrow> string" where
  "py_strip s = rev (dropWhile re_s (rev (dropWhile re_s s)))"

definition preprocessar_texto :: "string \<Rightarrow> string" where
  "preprocessar_texto texto =
     (if texto = [] then []
      else py_strip (sub_sequencias re_s (sub_sequencias re_d (sub_especiais (map py_lower texto)))))"


section \<open>Vectors, cosine similarity and ranking\<close>

type_synonym vetor = "real list"
type_synonym matriz = "vetor list"

text \<open>
  Floating-point numbers are modelled as exact reals. A Python exception is a value of
  \<open>excecao\<close>; an operation either returns a value or raises.
\<close>

datatype excecao = NotFittedError | ValueError | ZeroDivisionError | TypeError

datatype 'a resultado = Retorna 'a | Levanta excecao

definition produto :: "vetor \<Rightarrow> vetor \<Rightarrow> real" where
  "produto x y = sum_list (map (\<lambda>(a, b). a * b) (zip x y))"

definition norma :: "vetor \<Rightarrow> real" where
  "norma x = sqrt (produto x x)"

text \<open>
  \<open>sklearn.preprocessing.normalize\<close> (L2): each row is divided by its norm, a zero norm
  being replaced by 1.
\<close>

definition normalizar :: "vetor \<Rightarrow> vetor" where
  "normalizar x = (let n = norma x; d = (if n = 0 then 1 else n) in map (\<lambda>a. a / d) x)"

definition cosseno :: "vetor \<Rightarrow> vetor \<Rightarrow> real" where
  "cosseno q y = produto (normalizar q) (normalizar y)"

text \<open>
  \<open>cosine_similarity(vetor_licitacao, fornecedores_vetores)[0]\<close>: the library rejects an
  empty matrix, empty rows and rows whose dimension differs from the query's with
  \<open>ValueError\<close>; otherwise the row of similarities of the query to every candidate.
\<close>

definition cosine_similarity :: "vetor \<Rightarrow> matriz \<Rightarrow> real list resultado" where
  "cosine_similarity q V =
     (if V = [] \<or> q = [] \<or> list_ex (\<lambda>y. length y \<noteq> length q) V then Levanta ValueError
      else Retorna (map (cosseno q) V))"

text \<open>
  The libraries the module calls are outside the repository and are parameters. An
  encoder maps a text to its vector; \<open>st_load\<close> is what constructing the sentence
  transformer yields (\<open>None\<close> when the constructor raises); \<open>tfidf_fit\<close> is the fit of
  the TF-IDF vectorizer on a corpus (\<open>None\<close> when the fit raises \<open>ValueError\<close>, otherwise
  the transform of the fitted vectorizer); \<open>np_quicksort\<close> is what numpy's default sort
  returns as the sorting indices of an array it has to partition.
\<close>

record bibliotecas =
  st_load :: "(string \<Rightarrow> vetor) option"
  tfidf_fit :: "string list \<Rightarrow> (string \<Rightarrow> vetor) option"
  np_quicksort :: "real list \<Rightarrow> nat list"

text \<open>
  \<open>ndarray.argsort()\<close> with the default kind, numpy's quicksort. The quicksort
  partitions only a range of more than 17 elements and sorts a shorter range by
  insertion, moving an element only past strictly greater ones: an array of at most 17
  elements is sorted by insertion alone, which leaves equal values in index order. A
  longer array is partitioned first, and equal values may then come out in any order:
  there the result is the library's, with nothing fixed about ties.
\<close>

definition ordenacao_insercao :: "real list \<Rightarrow> nat list" where
  "ordenacao_insercao xs = sort_key (\<lambda>i. xs ! i) [0..<length xs]"

definition argsort :: "bibliotecas \<Rightarrow> real list \<Rightarrow> nat list" where
  "argsort L xs = (if length xs \<le> 17 then ordenacao_insercao xs else np_quicksort L xs)"

text \<open>Python's \<open>xs[s:]\<close> for any integer \<open>s\<close>: a negative start counts from the end.\<close>

definition py_slice_from :: "int \<Rightarrow> 'a list \<Rightarrow> 'a list" where
  "py_slice_from s xs =
     (let n = int (length xs); st = (if s < 0 then max 0 (n + s) else min s n)
      in drop (nat st) xs)"

text \<open>\<open>similaridades.argsort()[-top_n:][::-1]\<close>\<close>

definition indices_top :: "bibliotecas \<Rightarrow> real list \<Rightarrow> int \<Rightarrow> nat list" where
  "indices_top L similaridades top_n = rev (py_slice_from (- top_n) (argsort L similaridades))"

section \<open>The recommendation model: \<open>RecomendadorFornecedores\<close>\<close>

text \<open>Supplier and bid records are Python dicts from field name to text.\<close>

type_synonym registro = "string \<rightharpoonup> string"

text \<open>The calls of the module's logger, one constructor per message.\<close>

datatype evento =
    ST_carregado
  | ST_erro
  | Usando_TFIDF
  | Nenhum_fornecedor
  | Iniciando_treinamento nat
  | Gerando_embeddings_ST
  | Gerando_embeddings_TFIDF
  | Treinamento_concluido
  | Modelo_nao_treinado
  | Gerando_recomendacoes string
  | Geradas nat
  | Modelo_salvo string
  | Erro_salvar
  | Modelo_carregado string
  | Data_ultimo_treinamento nat
  | Erro_carregar
  | Numero_diferente
  | Avaliacao_concluida

text \<open>
  The instance. \<open>vectorizer\<close> is \<open>None\<close> while the TF-IDF vectorizer is not fitted and
  holds its transform once it is; \<open>logger\<close> is the list of messages logged so far,
  oldest first.
\<close>

record recomendador =
  modelo_path :: "string option"
  sentence_transformer :: "(string \<Rightarrow> vetor) option"
  vectorizer :: "(string \<Rightarrow> vetor) option"
  fornecedores_vetores :: "matriz option"
  fornecedores_dados :: "registro list option"
  ultimo_treinamento :: "nat option"
  logger :: "evento list"

record recomendacao =
  fornecedor :: registro
  pontuacao :: real
  ranking :: nat

definition registrar :: "evento \<Rightarrow> recomendador \<Rightarrow> recomendador" where
  "registrar e r = r\<lparr>logger := logger r @ [e]\<rparr>"

text \<open>\<open>d.get(k, padrao)\<close> and \<open>" ".join(xs)\<close>\<close>

definition obter :: "registro \<Rightarrow> string \<Rightarrow> string \<Rightarrow> string" where
  "obter d k padrao = (case d k of None \<Rightarrow> padrao | Some v \<Rightarrow> v)"

fun juntar :: "string list \<Rightarrow> string" where
  "juntar [] = []"
| "juntar [x] = x"
| "juntar (x # y # ys) = x @ CHR '' '' # juntar (y # ys)"

definition inicializar_sentence_transformer :: "bibliotecas \<Rightarrow> recomendador \<Rightarrow> recomendador" where
  "inicializar_sentence_transformer L r =
     (case st_load L of
        Some enc \<Rightarrow> registrar ST_carregado (r\<lparr>sentence_transformer := Some enc\<rparr>)
      | None \<Rightarrow> registrar Usando_TFIDF (registrar ST_erro r)\<lparr>sentence_transformer := None\<rparr>)"

definition texto_fornecedor :: "registro \<Rightarrow> string" where
  "texto_fornecedor f =
     juntar [obter f ''razao_social'' [], obter f ''descricao'' [], obter f ''area_atuacao'' [],
             obter f ''especialidades'' [], obter f ''palavras_chave'' [] ]"

definition concluir_treinamento :: "nat \<Rightarrow> registro list \<Rightarrow> recomendador \<Rightarrow> recomendador" where
  "concluir_treinamento agora fornecedores r =
     registrar Treinamento_concluido
       (r\<lparr>fornecedores_dados := Some fornecedores, ultimo_treinamento := Some agora\<rparr>)"

text \<open>\<open>treinar\<close>; \<open>agora\<close> is the value of \<open>datetime.now()\<close> at the call.\<close>

definition treinar ::
  "bibliotecas \<Rightarrow> nat \<Rightarrow> registro list \<Rightarrow> recomendador \<Rightarrow> unit resultado \<times> recomendador" where
  "treinar L agora fornecedores r =
     (if fornecedores = [] then (Retorna (), registrar Nenhum_fornecedor r)
      else
        let r1 = registrar (Iniciando_treinamento (length fornecedores)) r;
            textos = map (\<lambda>f. preprocessar_texto (texto_fornecedor f)) fornecedores;
            r2 = (if sentence_transformer r1 = None then inicializar_sentence_transformer L r1
                  else r1)
        in case sentence_transformer r2 of
             Some enc \<Rightarrow>
               (Retorna (),
                concluir_treinamento agora fornecedores
                  ((registrar Gerando_embeddings_ST r2)\<lparr>fornecedores_vetores := Some (map enc textos)\<rparr>))
           | None \<Rightarrow>
               (let r3 = registrar Gerando_embeddings_TFIDF r2
                in case tfidf_fit L textos of
                     None \<Rightarrow> (Levanta ValueError, r3)
                   | Some t \<Rightarrow>
                       (Retorna (),
                        concluir_treinamento agora fornecedores
                          (r3\<lparr>vectorizer := Some t,
                              fornecedores_vetores := Some (map t textos)\<rparr>))))"

definition texto_licitacao :: "registro \<Rightarrow> string" where
  "texto_licitacao licitacao =
     juntar [obter licitacao ''titulo'' [], obter licitacao ''descricao'' [],
             obter licitacao ''objeto'' [], obter licitacao ''palavras_chave'' [] ]"

text \<open>
  The loop that builds the result: position \<open>i\<close> of \<open>indices_top\<close> gets rank \<open>i + 1\<close>, and
  an index outside the stored records is skipped.
\<close>

definition montar :: "real list \<Rightarrow> registro list \<Rightarrow> nat list \<Rightarrow> recomendacao list" where
  "montar similaridades dados indices =
     map (\<lambda>(i, idx). \<lparr>fornecedor = dados ! idx, pontuacao = similaridades ! idx * 100,
                       ranking = i + 1\<rparr>)
       (filter (\<lambda>(i, idx). idx < length dados) (enumerate 0 indices))"

text \<open>
  The embedding of the bid text: the sentence transformer when the instance holds one,
  otherwise the transform of the instance's vectorizer, which raises when it is not
  fitted.
\<close>

definition vetor_licitacao :: "recomendador \<Rightarrow> string \<Rightarrow> vetor resultado" where
  "vetor_licitacao r texto =
     (case sentence_transformer r of
        Some enc \<Rightarrow> Retorna (enc texto)
      | None \<Rightarrow> (case vectorizer r of
                   None \<Rightarrow> Levanta NotFittedError
                 | Some t \<Rightarrow> Retorna (t texto)))"

definition recomendar ::
  "bibliotecas \<Rightarrow> registro \<Rightarrow> int \<Rightarrow> recomendador
     \<Rightarrow> recomendacao list resultado \<times> recomendador" where
  "recomendar L licitacao top_n r =
     (case (fornecedores_vetores r, fornecedores_dados r) of
        (Some vetores, Some dados) \<Rightarrow>
          (let r1 = registrar (Gerando_recomendacoes (obter licitacao ''titulo'' ''Sem titulo'')) r;
               texto = preprocessar_texto (texto_licitacao licitacao)
           in case vetor_licitacao r texto of
                Levanta e \<Rightarrow> (Levanta e, r1)
              | Retorna q \<Rightarrow>
                  (case cosine_similarity q vetores of
                     Levanta e \<Rightarrow> (Levanta e, r1)
                   | Retorna similaridades \<Rightarrow>
                       (let recomendacoes = montar similaridades dados
                                              (indices_top L similaridades top_n)
                        in (Retorna recomendacoes,
                            registrar (Geradas (length recomendacoes)) r1))))
      | _ \<Rightarrow> (Retorna [], registrar Modelo_nao_treinado r))"


subsection \<open>Persistence: \<open>salvar_modelo\<close>, \<open>carregar_modelo\<close>, the constructor\<close>

text \<open>
  What \<open>joblib.load\<close> finds at a path: nothing, a file it cannot read back, or a pickled
  dict. For each of the three keys read with \<open>modelo_dados[...]\<close> the dict says whether
  the key is present and with what value; \<open>'ultimo_treinamento'\<close> is read with \<open>.get\<close>,
  so an absent key and \<open>None\<close> are the same. \<open>gravavel\<close> says whether \<open>joblib.dump\<close>
  to a path succeeds.
\<close>

record modelo_dados =
  md_vetores :: "matriz option option"
  md_dados :: "registro list option option"
  md_vectorizer :: "(string \<Rightarrow> vetor) option option"
  md_ultimo_treinamento :: "nat option"

datatype arquivo = Corrompido | Conteudo modelo_dados

record disco =
  arquivos :: "string \<rightharpoonup> arquivo"
  gravavel :: "string \<Rightarrow> bool"

definition salvar_modelo ::
  "string \<Rightarrow> recomendador \<Rightarrow> disco \<Rightarrow> unit resultado \<times> recomendador \<times> disco" where
  "salvar_modelo caminho r d =
     (if fornecedores_vetores r = None \<or> fornecedores_dados r = None
      then (Retorna (), registrar Modelo_nao_treinado r, d)
      else
        let dados = \<lparr>md_vetores = Some (fornecedores_vetores r),
                     md_dados = Some (fornecedores_dados r),
                     md_vectorizer = Some (vectorizer r),
                     md_ultimo_treinamento = ultimo_treinamento r\<rparr>
        in if gravavel d caminho
           then (Retorna (), registrar (Modelo_salvo caminho) r,
                 d\<lparr>arquivos := (arquivos d)(caminho \<mapsto> Conteudo dados)\<rparr>)
           else (Retorna (), registrar Erro_salvar r, d))"

text \<open>
  \<open>carregar_modelo\<close>: the four assignments run in order inside one \<open>try\<close>; the first
  failing read jumps to the handler, which only logs, and the assignments already made
  stay.
\<close>

definition carregar_modelo ::
  "disco \<Rightarrow> string \<Rightarrow> recomendador \<Rightarrow> unit resultado \<times> recomendador" where
  "carregar_modelo d caminho r =
     (case arquivos d caminho of
        None \<Rightarrow> (Retorna (), registrar Erro_carregar r)
      | Some Corrompido \<Rightarrow> (Retorna (), registrar Erro_carregar r)
      | Some (Conteudo m) \<Rightarrow>
          (case md_vetores m of
             None \<Rightarrow> (Retorna (), registrar Erro_carregar r)
           | Some v \<Rightarrow>
               (let r1 = r\<lparr>fornecedores_vetores := v\<rparr>
                in case md_dados m of
                     None \<Rightarrow> (Retorna (), registrar Erro_carregar r1)
                   | Some dd \<Rightarrow>
                       (let r2 = r1\<lparr>fornecedores_dados := dd\<rparr>
                        in case md_vectorizer m of
                             None \<Rightarrow> (Retorna (), registrar Erro_carregar r2)
                           | Some vz \<Rightarrow>
                               (let r3 = registrar (Modelo_carregado caminho)
                                           (r2\<lparr>vectorizer := vz,
                                               ultimo_treinamento := md_ultimo_treinamento m\<rparr>)
                                in (Retorna (),
                                    case ultimo_treinamento r3 of
                                      None \<Rightarrow> r3
                                    | Some t \<Rightarrow> registrar (Data_ultimo_treinamento t) r3))))))"

text \<open>\<open>__init__\<close>: every field unset, then the model at \<open>modelo_path\<close> is loaded when it exists.\<close>

definition init :: "disco \<Rightarrow> string option \<Rightarrow> recomendador" where
  "init d caminho =
     (let r = \<lparr>modelo_path = caminho, sentence_transformer = None, vectorizer = None,
               fornecedores_vetores = None, fornecedores_dados = None,
               ultimo_treinamento = None, logger = []\<rparr>
      in case caminho of
           None \<Rightarrow> r
         | Some p \<Rightarrow> if p \<noteq> [] \<and> arquivos d p \<noteq> None then snd (carregar_modelo d p r) else r)"

subsection \<open>Evaluation: \<open>avaliar_recomendacoes\<close>\<close>

record metricas =
  precisao_media :: real
  recall_medio :: real
  f1_medio :: real

text \<open>
  One pass of the loop body per test bid, with the three running totals.
  \<open>len(set(ids_recomendados).intersection(set(ids_corretos)))\<close> is the number of
  distinct recommended ids that are among the correct ones; a record without \<open>'id'\<close>
  contributes \<open>None\<close>, which no correct id equals.
\<close>

fun avaliar_laco ::
  "bibliotecas \<Rightarrow> (registro \<times> string list) list \<Rightarrow> real \<times> real \<times> real \<Rightarrow> recomendador
     \<Rightarrow> (real \<times> real \<times> real) resultado \<times> recomendador" where
  "avaliar_laco L [] totais r = (Retorna totais, r)"
| "avaliar_laco L ((licitacao, ids_corretos) # resto) (precisao_total, recall_total, f1_total) r =
     (case recomendar L licitacao 10 r of
        (Levanta e, r') \<Rightarrow> (Levanta e, r')
      | (Retorna recomendacoes, r') \<Rightarrow>
          (let ids_recomendados = map (\<lambda>x. fornecedor x ''id'') recomendacoes;
               relevantes = length (remdups (filter (\<lambda>i. i \<in> set (map Some ids_corretos))
                                                    ids_recomendados));
               precisao = (if ids_recomendados \<noteq> []
                           then real relevantes / real (length ids_recomendados) else 0);
               recall = (if ids_corretos \<noteq> []
                         then real relevantes / real (length ids_corretos) else 0);
               f1 = (if precisao + recall > 0
                     then 2 * (precisao * recall) / (precisao + recall) else 0)
           in avaliar_laco L resto
                (precisao_total + precisao, recall_total + recall, f1_total + f1) r'))"

text \<open>
  \<open>avaliar_recomendacoes\<close> returns a dict: \<open>None\<close> is the empty dict \<open>{}\<close> of the length
  check, \<open>Some m\<close> the dict of the three averages. With no test bid at all the averages
  divide by zero.
\<close>

definition avaliar_recomendacoes ::
  "bibliotecas \<Rightarrow> registro list \<Rightarrow> string list list \<Rightarrow> recomendador
     \<Rightarrow> metricas option resultado \<times> recomendador" where
  "avaliar_recomendacoes L licitacoes_teste fornecedores_corretos r =
     (if length licitacoes_teste \<noteq> length fornecedores_corretos
      then (Retorna None, registrar Numero_diferente r)
      else case avaliar_laco L (zip licitacoes_teste fornecedores_corretos) (0, 0, 0) r of
             (Levanta e, r') \<Rightarrow> (Levanta e, r')
           | (Retorna (precisao_total, recall_total, f1_total), r') \<Rightarrow>
               (let num_testes = length licitacoes_teste
                in if num_testes = 0 then (Levanta ZeroDivisionError, r')
                   else (Retorna (Some \<lparr>precisao_media = precisao_total / real num_testes,
                                        recall_medio = recall_total / real num_testes,
                                        f1_medio = f1_total / real num_testes\<rparr>),
                         registrar Avaliacao_concluida r')))"

section \<open>Proposal scorer: the scoring step of \<open>calculate_supplier_scores\<close>\<close>

text \<open>
  The columns the scoring reads: \<open>Proposta.valor\<close> (Float), \<open>Proposta.prazo_entrega\<close>
  (Integer), \<open>Fornecedor.avaliacao_media\<close> (Float) and the nullable
  \<open>Licitacao.valor_estimado\<close>, whose comparison with 0 raises \<open>TypeError\<close> when it is
  \<open>None\<close>.
\<close>

record proposta =
  valor :: real
  prazo_entrega :: int
  fornecedor_id :: nat
  pontuacao_ia :: "real option"

record fornecedor_db =
  avaliacao_media :: real

definition pontuacao_proposta :: "real option \<Rightarrow> proposta \<Rightarrow> fornecedor_db \<Rightarrow> real resultado" where
  "pontuacao_proposta valor_estimado p f =
     (case valor_estimado of
        None \<Rightarrow> Levanta TypeError
      | Some ve \<Rightarrow>
          (let preco_score = (if ve > 0 then 100 - (valor p / ve * 100) else 50);
               preco_score = max 0 (min 100 preco_score);
               prazo_score = (if prazo_entrega p > 0
                              then 100 - (real_of_int (prazo_entrega p) / 30 * 100) else 50);
               prazo_score = max 0 (min 100 prazo_score);
               avaliacao_score = avaliacao_media f * 20;
               preco_peso = 0.5;
               prazo_peso = 0.3;
               avaliacao_peso = 0.2
           in Retorna (preco_score * preco_peso + prazo_score * prazo_peso
                       + avaliacao_score * avaliacao_peso)))"

text \<open>
  The loop over the bid's proposals: a proposal whose supplier is not found is skipped,
  the others get their score; an exception leaves the loop (the task then reports an
  error and commits nothing).
\<close>

fun calcular_pontuacoes ::
  "real option \<Rightarrow> (nat \<rightharpoonup> fornecedor_db) \<Rightarrow> proposta list \<Rightarrow> proposta list resultado" where
  "calcular_pontuacoes valor_estimado fornecedores [] = Retorna []"
| "calcular_pontuacoes valor_estimado fornecedores (p # ps) =
     (case fornecedores (fornecedor_id p) of
        None \<Rightarrow> (case calcular_pontuacoes valor_estimado fornecedores ps of
                   Levanta e \<Rightarrow> Levanta e
                 | Retorna ps' \<Rightarrow> Retorna (p # ps'))
      | Some f \<Rightarrow>
          (case pontuacao_proposta valor_estimado p f of
             Levanta e \<Rightarrow> Levanta e
           | Retorna pontos \<Rightarrow>
               (case calcular_pontuacoes valor_estimado fornecedores ps of
                  Levanta e \<Rightarrow> Levanta e
                | Retorna ps' \<Rightarrow> Retorna (p\<lparr>pontuacao_ia := Some pontos\<rparr> # ps'))))"


section \<open>Auxiliary notions for the statements\<close>





text \<open>
  The number of attempts to construct the sentence transformer an instance has made:
  every attempt logs exactly one of the two messages of
  \<open>_inicializar_sentence_transformer\<close>.
\<close>

definition tentativas_st :: "recomendador \<Rightarrow> nat" where
  "tentativas_st r = length (filter (\<lambda>e. e = ST_carregado \<or> e = ST_erro) (logger r))"

text \<open>The scorer as the specification words it.\<close>

definition clamp :: "real \<Rightarrow> real \<Rightarrow> real \<Rightarrow> real" where
  "clamp x lo hi = max lo (min hi x)"

definition spec_price :: "real \<Rightarrow> real \<Rightarrow> real" where
  "spec_price v ve = (if ve > 0 then clamp (100 - v / ve * 100) 0 100 else 50)"

definition spec_delivery :: "int \<Rightarrow> real" where
  "spec_delivery dias = (if dias > 0 then clamp (100 - real_of_int dias / 30 * 100) 0 100 else 50)"

definition spec_rating :: "real \<Rightarrow> real" where
  "spec_rating media = media * 20"

definition spec_score :: "proposta \<Rightarrow> fornecedor_db \<Rightarrow> real \<Rightarrow> real" where
  "spec_score p f ve =
     0.5 * spec_price (valor p) ve + 0.3 * spec_delivery (prazo_entrega p)
     + 0.2 * spec_rating (avaliacao_media f)"

subsection \<open>Concrete instances\<close>

definition disco_vazio :: disco where
  "disco_vazio = \<lparr>arquivos = Map.empty, gravavel = (\<lambda>p. True)\<rparr>"

definition lic_q :: registro where
  "lic_q = [''titulo'' \<mapsto> ''q'']"

definition forn_a :: registro where
  "forn_a = [''id'' \<mapsto> ''1'', ''palavras_chave'' \<mapsto> ''a'']"

definition forn_b :: registro where
  "forn_b = [''id'' \<mapsto> ''2'', ''palavras_chave'' \<mapsto> ''b'']"



definition enc_ab :: "string \<Rightarrow> vetor" where
  "enc_ab t = (if t = ''a'' then [1, 0] else if t = ''b'' then [0, 1] else [1, 0])"

definition libs_st :: "(string \<Rightarrow> vetor) \<Rightarrow> bibliotecas" where
  "libs_st enc = \<lparr>st_load = Some enc, tfidf_fit = (\<lambda>textos. None),
                  np_quicksort = ordenacao_insercao\<rparr>"


definition novo :: recomendador where
  "novo = init disco_vazio None"

definition treinado :: "bibliotecas \<Rightarrow> recomendador" where
  "treinado L = snd (treinar L 0 [forn_a, forn_b] novo)"


text \<open>
  A file whose dict has the vectors but none of the other keys, and the instance that
  results from saving an instance to an empty disk and loading the file into a fresh
  instance.
\<close>

definition disco_parcial :: disco where
  "disco_parcial =
     \<lparr>arquivos = [''m'' \<mapsto> Conteudo \<lparr>md_vetores = Some (Some [ [5] ]), md_dados = None,
                                          md_vectorizer = None,
                                          md_ultimo_treinamento = None\<rparr>],
      gravavel = (\<lambda>p. True)\<rparr>"

definition recarregado :: "recomendador \<Rightarrow> recomendador" where
  "recarregado r =
     snd (carregar_modelo (snd (snd (salvar_modelo ''m'' r disco_vazio))) ''m'' novo)"

section \<open>Properties of the ranking\<close>





















section \<open>Bounds on the cosine similarity\<close>















section \<open>The result list of \<open>recomendar\<close>\<close>








section \<open>The concrete instances, evaluated\<close>

lemma texto_forn_a: "preprocessar_texto (texto_fornecedor forn_a) = ''a''"
  by code_simp

lemma texto_forn_b: "preprocessar_texto (texto_fornecedor forn_b) = ''b''"
  by code_simp

lemma texto_lic_q: "preprocessar_texto (texto_licitacao lic_q) = ''q''"
  by code_simp

lemma novo_campos:
  "novo = \<lparr>modelo_path = None, sentence_transformer = None, vectorizer = None,
           fornecedores_vetores = None, fornecedores_dados = None,
           ultimo_treinamento = None, logger = []\<rparr>"
  by (simp add: novo_def init_def)

lemma treinado_st:
  "treinado (libs_st enc) =
     \<lparr>modelo_path = None, sentence_transformer = Some enc, vectorizer = None,
      fornecedores_vetores = Some [enc ''a'', enc ''b''],
      fornecedores_dados = Some [forn_a, forn_b], ultimo_treinamento = Some 0,
      logger = [Iniciando_treinamento 2, ST_carregado, Gerando_embeddings_ST,
                Treinamento_concluido]\<rparr>"
  by (simp add: treinado_def treinar_def novo_campos libs_st_def registrar_def
      inicializar_sentence_transformer_def concluir_treinamento_def Let_def
      texto_forn_a texto_forn_b)



lemma treinado_dados: "fornecedores_dados (treinado (libs_st enc)) = Some [forn_a, forn_b]"
  by (simp add: treinado_st)



lemma cosseno_10_10: "cosseno [1, 0] [1, 0] = 1"
  by (simp add: cosseno_def normalizar_def norma_def produto_def)

lemma cosseno_10_01: "cosseno [1, 0] [0, 1] = 0"
  by (simp add: cosseno_def normalizar_def norma_def produto_def)




lemma indices_top_10_1: "indices_top L [1, 0] 1 = [0]"
  by (simp add: indices_top_def py_slice_from_def argsort_def ordenacao_insercao_def upt_rec)




lemma recomendar_ab_1:
  "fst (recomendar (libs_st enc_ab) lic_q 1 (treinado (libs_st enc_ab))) =
     Retorna [\<lparr>fornecedor = forn_a, pontuacao = 100, ranking = 1\<rparr>]"
  by (simp add: recomendar_def treinado_st vetor_licitacao_def texto_lic_q enc_ab_def
      cosine_similarity_def cosseno_10_10 cosseno_10_01 indices_top_10_1 montar_def
      enumerate_eq_zip upt_rec Let_def)

section \<open>Training, logging and persistence\<close>

lemma treinar_alinhado:
  assumes "fornecedores \<noteq> []" and "fst (treinar L agora fornecedores r) = Retorna ()"
  shows "\<exists>V. fornecedores_vetores (snd (treinar L agora fornecedores r)) = Some V
             \<and> fornecedores_dados (snd (treinar L agora fornecedores r)) = Some fornecedores
             \<and> length V = length fornecedores"
  using assms
  by (auto simp: treinar_def registrar_def Let_def inicializar_sentence_transformer_def
      concluir_treinamento_def split: option.splits if_splits)

lemma tentativas_st_registrar:
  "tentativas_st (registrar e r) = tentativas_st r + (if e = ST_carregado \<or> e = ST_erro then 1 else 0)"
  by (simp add: tentativas_st_def registrar_def)



lemma carregar_modelo_nunca_levanta: "fst (carregar_modelo d caminho r) = Retorna ()"
  by (simp add: carregar_modelo_def Let_def split: option.splits arquivo.splits)

lemma carregar_modelo_ilegivel:
  "arquivos d caminho = None \<or> arquivos d caminho = Some Corrompido \<Longrightarrow>
   carregar_modelo d caminho r = (Retorna (), registrar Erro_carregar r)"
  by (auto simp: carregar_modelo_def)

lemma recarregado_campos:
  assumes "fornecedores_vetores r = Some V" and "fornecedores_dados r = Some D"
  shows "recarregado r =
     \<lparr>modelo_path = None, sentence_transformer = None, vectorizer = vectorizer r,
      fornecedores_vetores = Some V, fornecedores_dados = Some D,
      ultimo_treinamento = ultimo_treinamento r,
      logger = (case ultimo_treinamento r of
                  None \<Rightarrow> [Modelo_carregado ''m'']
                | Some t \<Rightarrow> [Modelo_carregado ''m'', Data_ultimo_treinamento t])\<rparr>"
  using assms
  by (simp add: recarregado_def salvar_modelo_def carregar_modelo_def disco_vazio_def
      novo_campos registrar_def Let_def split: option.splits)

lemma salvar_carregar_frequencia:
  assumes "fornecedores_vetores r = Some V" and "fornecedores_dados r = Some D"
    and "sentence_transformer r = None"
  shows "fst (recomendar L licitacao top_n (recarregado r)) = fst (recomendar L licitacao top_n r)"
  using assms
  by (simp add: recarregado_campos[OF assms(1,2)] recomendar_def vetor_licitacao_def Let_def
      split: option.splits resultado.splits)

section \<open>The scorer on a numeric estimate\<close>

text \<open>
  For every proposal, supplier and numeric estimated value the score is the composite
  of the specification; a proposal value equal to the estimate gives price factor 0 (50
  when the estimate is not positive), a proposal value of 0 gives price factor 100 (50
  when the estimate is not positive), zero delivery days give delivery factor 50.
\<close>

lemma pontuacao_proposta_numerica:
  "pontuacao_proposta (Some ve) p f = Retorna (spec_score p f ve)
   \<and> pontuacao_proposta (Some ve) (p\<lparr>valor := ve\<rparr>) f =
       Retorna (0.5 * (if ve > 0 then 0 else 50) + 0.3 * spec_delivery (prazo_entrega p)
                + 0.2 * spec_rating (avaliacao_media f))
   \<and> pontuacao_proposta (Some ve) (p\<lparr>valor := 0\<rparr>) f =
       Retorna (0.5 * (if ve > 0 then 100 else 50) + 0.3 * spec_delivery (prazo_entrega p)
                + 0.2 * spec_rating (avaliacao_media f))
   \<and> pontuacao_proposta (Some ve) (p\<lparr>prazo_entrega := 0\<rparr>) f =
       Retorna (0.5 * spec_price (valor p) ve + 0.3 * 50 + 0.2 * spec_rating (avaliacao_media f))"
  by (simp add: pontuacao_proposta_def spec_score_def spec_price_def spec_delivery_def
      spec_rating_def clamp_def Let_def)

section \<open>The claims\<close>

text \<open>
  \<^bold>\<open>C1\<close> (as the code has it). In the Untrained state, that is whenever the stored
  vectors or the stored records are unset, \<open>recomendar\<close> raises nothing: it logs the
  "model not trained" error and returns the empty list, leaving the instance otherwise
  as it was.
\<close>

theorem recomendar_nao_treinado:
  "fornecedores_vetores r = None \<or> fornecedores_dados r = None \<Longrightarrow>
   recomendar L licitacao top_n r = (Retorna [], registrar Modelo_nao_treinado r)"
  by (auto simp: recomendar_def split: option.splits)

theorem recomendar_nao_treinado_witness:
  "(fornecedores_vetores novo = None \<or> fornecedores_dados novo = None)
   \<and> recomendar (libs_st enc_ab) lic_q 5 novo = (Retorna [], registrar Modelo_nao_treinado novo)"
proof -
  have h: "fornecedores_vetores novo = None \<or> fornecedores_dados novo = None"
    by (simp add: novo_campos)
  show ?thesis using h recomendar_nao_treinado[OF h, of "libs_st enc_ab" lic_q 5] by simp
qed

text \<open>A fresh instance asked for five recommendations returns the empty list.\<close>

theorem recomendar_nao_treinado_counterexample:
  "fst (recomendar (libs_st enc_ab) lic_q 5 novo) = Retorna []"
  by (simp add: recomendar_def novo_campos)









text \<open>
  \<^bold>\<open>C2\<close>, at a bid without an estimated value. The column is nullable, and the
  comparison \<open>valor_estimado > 0\<close> that guards the price factor raises \<open>TypeError\<close> on
  \<open>None\<close>: no score is computed, neither by the scoring step nor by the loop over the
  bid's proposals, where the neutral price factor 50 was to apply.
\<close>

theorem pontuacao_proposta_sem_estimativa:
  "pontuacao_proposta None p f = Levanta TypeError
   \<and> calcular_pontuacoes None [fornecedor_id p \<mapsto> f] [p] = Levanta TypeError"
  by (simp add: pontuacao_proposta_def)

text \<open>
  \<^bold>\<open>C9\<close>, at the input \<open>a_b\<close>. The underscore belongs to \<open>\\w\<close>, so the first
  substitution keeps it, and the result contains a character that is neither a
  lowercase letter nor a space.
\<close>

theorem preprocessar_texto_sublinhado:
  "preprocessar_texto ''a_b'' = ''a_b''"
  by code_simp


text \<open>
  \<^bold>\<open>C7\<close> (as the code has it). When the two input sequences differ in length,
  \<open>avaliar_recomendacoes\<close> raises nothing: it logs an error and returns the empty dict at
  once; no recommendation is computed and the instance is otherwise unchanged.
\<close>

theorem avaliar_tamanhos_diferentes:
  "length licitacoes_teste \<noteq> length fornecedores_corretos \<Longrightarrow>
   avaliar_recomendacoes L licitacoes_teste fornecedores_corretos r =
     (Retorna None, registrar Numero_diferente r)"
  by (simp add: avaliar_recomendacoes_def)

theorem avaliar_tamanhos_diferentes_witness:
  "length [lic_q] \<noteq> length ([] :: string list list)
   \<and> avaliar_recomendacoes (libs_st enc_ab) [lic_q] [] novo = (Retorna None, registrar Numero_diferente novo)"
proof -
  have h: "length [lic_q] \<noteq> length ([] :: string list list)" by simp
  show ?thesis using h avaliar_tamanhos_diferentes[OF h, of "libs_st enc_ab" novo] by simp
qed

text \<open>One test bid against no list of correct ids: the result is the empty dict.\<close>

theorem avaliar_tamanhos_diferentes_counterexample:
  "fst (avaliar_recomendacoes (libs_st enc_ab) [lic_q] [] novo) = Retorna None"
  by (simp add: avaliar_recomendacoes_def)



text \<open>
  \<^bold>\<open>C6\<close>, at two inputs. Loading from a location that does not exist into a fresh
  instance returns normally, with only a log entry, and the instance stays Untrained:
  its next \<open>recomendar\<close> returns the empty list. Loading a dict that has the vectors but
  not the records into a trained instance replaces the vectors and keeps the old
  records.
\<close>

theorem carregar_modelo_falha_silenciosa:
  "carregar_modelo disco_vazio ''m'' novo = (Retorna (), registrar Erro_carregar novo)
   \<and> fst (recomendar (libs_st enc_ab) lic_q 5 (snd (carregar_modelo disco_vazio ''m'' novo))) = Retorna []
   \<and> fornecedores_vetores (snd (carregar_modelo disco_parcial ''m'' (treinado (libs_st enc_ab))))
       = Some [ [5] ]
   \<and> fornecedores_dados (snd (carregar_modelo disco_parcial ''m'' (treinado (libs_st enc_ab))))
       = Some [forn_a, forn_b]"
  by (simp add: carregar_modelo_def disco_vazio_def disco_parcial_def recomendar_def novo_campos
      registrar_def treinado_st)

text \<open>
  \<^bold>\<open>C5\<close>, at an instance trained with the semantic strategy. Saving it and loading the
  file into a fresh instance restores the vectors, the records and the timestamp, but
  the fresh instance holds no sentence transformer and an unfitted vectorizer: where
  the original returns a recommendation, the restored instance raises
  \<open>NotFittedError\<close>.
\<close>

theorem salvar_carregar_semantico:
  "fst (recomendar (libs_st enc_ab) lic_q 1 (treinado (libs_st enc_ab)))
     = Retorna [\<lparr>fornecedor = forn_a, pontuacao = 100, ranking = 1\<rparr>]
   \<and> fornecedores_vetores (recarregado (treinado (libs_st enc_ab)))
       = fornecedores_vetores (treinado (libs_st enc_ab))
   \<and> fornecedores_dados (recarregado (treinado (libs_st enc_ab)))
       = fornecedores_dados (treinado (libs_st enc_ab))
   \<and> ultimo_treinamento (recarregado (treinado (libs_st enc_ab)))
       = ultimo_treinamento (treinado (libs_st enc_ab))
   \<and> sentence_transformer (recarregado (treinado (libs_st enc_ab))) = None
   \<and> fst (recomendar (libs_st enc_ab) lic_q 1 (recarregado (treinado (libs_st enc_ab)))) = Levanta NotFittedError"
proof -
  have v: "fornecedores_vetores (treinado (libs_st enc_ab)) = Some [ [1, 0], [0, 1] ]"
    by (simp add: treinado_st enc_ab_def)
  have c: "recarregado (treinado (libs_st enc_ab)) =
     \<lparr>modelo_path = None, sentence_transformer = None, vectorizer = None,
      fornecedores_vetores = Some [ [1, 0], [0, 1] ], fornecedores_dados = Some [forn_a, forn_b],
      ultimo_treinamento = Some 0,
      logger = [Modelo_carregado ''m'', Data_ultimo_treinamento 0]\<rparr>"
    by (simp only: recarregado_campos[OF v treinado_dados]) (simp add: treinado_st)
  have r: "fst (recomendar (libs_st enc_ab) lic_q 1 (recarregado (treinado (libs_st enc_ab)))) = Levanta NotFittedError"
    unfolding c by (simp add: recomendar_def vetor_licitacao_def)
  have f: "fornecedores_vetores (recarregado (treinado (libs_st enc_ab))) = Some [ [1, 0], [0, 1] ]"
    "fornecedores_dados (recarregado (treinado (libs_st enc_ab))) = Some [forn_a, forn_b]"
    "ultimo_treinamento (recarregado (treinado (libs_st enc_ab))) = Some 0"
    "sentence_transformer (recarregado (treinado (libs_st enc_ab))) = None"
    by (simp_all only: c recomendador.simps)
  have u: "ultimo_treinamento (treinado (libs_st enc_ab)) = Some 0"
    by (simp add: treinado_st)
  show ?thesis
    by (simp only: recomendar_ab_1 r f v u treinado_dados simp_thms)
qed

end
